theory Spec2Isabelle
  imports Complex_Main
begin

section \<open>Python strings\<close>

text \<open>
  A Python \<^verbatim>\<open>str\<close> is a sequence of Unicode code points, so it is modelled as a list
  of natural numbers.  ASCII literals of the source are written through \<open>ascii\<close>; the
  Korean literals are spelled out code point by code point.
\<close>

type_synonym pystr = "nat list"

definition ascii :: "string \<Rightarrow> pystr" where
  "ascii cs = map of_char cs"

text \<open>\<^verbatim>\<open>sep.join(xs)\<close>\<close>

fun py_join :: "pystr \<Rightarrow> pystr list \<Rightarrow> pystr" where
  "py_join sep [] = []"
| "py_join sep [x] = x"
| "py_join sep (x # y # ys) = x @ sep @ py_join sep (y # ys)"

text \<open>Decimal digits of a natural number, most significant first.\<close>

fun digits :: "nat \<Rightarrow> pystr" where
  "digits n = (if n < 10 then [48 + n] else digits (n div 10) @ [48 + n mod 10])"

declare digits.simps [simp del]

text \<open>\<^verbatim>\<open>str(i)\<close> and \<^verbatim>\<open>f"{i}"\<close> for an integer.\<close>

definition py_str_int :: "int \<Rightarrow> pystr" where
  "py_str_int i = (if i < 0 then 45 # digits (nat (- i)) else digits (nat i))"

text \<open>Left padding with the digit zero up to a width.\<close>

definition zfill :: "nat \<Rightarrow> pystr \<Rightarrow> pystr" where
  "zfill w ds = replicate (w - length ds) 48 @ ds"

text \<open>
  \<^verbatim>\<open>f"{i:02d}"\<close>: the sign counts towards the width of two and the zeros go between
  the sign and the digits, so a negative number is never padded.
\<close>

definition fmt_02d :: "int \<Rightarrow> pystr" where
  "fmt_02d i = (if i < 0 then 45 # zfill 1 (digits (nat (- i))) else zfill 2 (digits (nat i)))"

section \<open>Reference resolver: \<^verbatim>\<open>extract_video_id\<close>\<close>

text \<open>
  The pattern is \<^verbatim>\<open>(?:v=|\/)([0-9A-Za-z_-]{11})(?:\?|&|\/|$)\<close>.
  The class \<^verbatim>\<open>[0-9A-Za-z_-]\<close> of a \<^verbatim>\<open>str\<close> pattern holds exactly these code points.
\<close>

definition id_char :: "nat \<Rightarrow> bool" where
  "id_char c \<longleftrightarrow> (48 \<le> c \<and> c \<le> 57) \<or> (65 \<le> c \<and> c \<le> 90) \<or> (97 \<le> c \<and> c \<le> 122)
     \<or> c = 95 \<or> c = 45"

text \<open>
  \<^verbatim>\<open>$\<close> without \<^verbatim>\<open>re.MULTILINE\<close>: the position is the end of the string, or it is
  just before a newline that is the last character of the string.  The argument is the
  rest of the subject from the position on.
\<close>

definition at_dollar :: "pystr \<Rightarrow> bool" where
  "at_dollar r \<longleftrightarrow> r = [] \<or> r = [10]"

text \<open>The closing group \<^verbatim>\<open>(?:\?|&|\/|$)\<close> on the rest of the subject.\<close>

definition closing_group :: "pystr \<Rightarrow> bool" where
  "closing_group r \<longleftrightarrow>
     (case r of [] \<Rightarrow> at_dollar r
      | c # cs \<Rightarrow> c = 63 \<or> c = 38 \<or> c = 47 \<or> at_dollar r)"

text \<open>\<^verbatim>\<open>([0-9A-Za-z_-]{11})(?:\?|&|\/|$)\<close> at the start of \<open>t\<close>; the result is group 1.\<close>

definition match_id :: "pystr \<Rightarrow> pystr option" where
  "match_id t =
     (if 11 \<le> length t \<and> list_all id_char (take 11 t) \<and> closing_group (drop 11 t)
      then Some (take 11 t) else None)"

text \<open>
  The whole pattern anchored at the start of \<open>s\<close>.  The two alternatives of the opening
  group begin with different characters and the rest of the pattern has fixed width, so
  there is nothing to backtrack over.
\<close>

definition match_here :: "pystr \<Rightarrow> pystr option" where
  "match_here s =
     (if take 2 s = [118, 61] then match_id (drop 2 s)
      else if take 1 s = [47] then match_id (drop 1 s)
      else None)"

text \<open>\<^verbatim>\<open>re.search\<close>: the match at the leftmost position that has one; group 1 of it.\<close>

fun re_search :: "pystr \<Rightarrow> pystr option" where
  "re_search [] = match_here []"
| "re_search (c # cs) =
     (case match_here (c # cs) of Some g \<Rightarrow> Some g | None \<Rightarrow> re_search cs)"

definition extract_video_id :: "pystr \<Rightarrow> pystr" where
  "extract_video_id input_str =
     (case re_search input_str of Some g \<Rightarrow> g | None \<Rightarrow> input_str)"

section \<open>Timestamp formatter: \<^verbatim>\<open>format_timestamp\<close>\<close>

text \<open>
  The start offset of a transcript entry is a number of seconds with a fractional part.
  It is modelled as an exact real number: \<^verbatim>\<open>x // y\<close> is the floor of the quotient,
  \<^verbatim>\<open>x % y\<close> is what is left of \<open>x\<close> above that multiple of \<open>y\<close>, and \<^verbatim>\<open>int(x)\<close>
  drops the fractional part (towards zero).  Rounding of binary floating point,
  infinities and NaN are outside the model.
\<close>

definition py_floordiv :: "real \<Rightarrow> real \<Rightarrow> real" where
  "py_floordiv x y = of_int \<lfloor>x / y\<rfloor>"

definition py_mod :: "real \<Rightarrow> real \<Rightarrow> real" where
  "py_mod x y = x - y * of_int \<lfloor>x / y\<rfloor>"

definition py_int :: "real \<Rightarrow> int" where
  "py_int x = (if 0 \<le> x then \<lfloor>x\<rfloor> else \<lceil>x\<rceil>)"

definition format_timestamp :: "real \<Rightarrow> pystr" where
  "format_timestamp seconds =
     (let hours = py_int (py_floordiv seconds 3600);
          minutes = py_int (py_floordiv (py_mod seconds 3600) 60);
          secs = py_int (py_mod seconds 60)
      in fmt_02d hours @ [58] @ fmt_02d minutes @ [58] @ fmt_02d secs)"

section \<open>The providers, the process environment and the outside world\<close>

text \<open>
  The four remote providers, the clock, the command line and the file system are
  parameters of a run.  A provider call either returns or raises; an exception is a
  value \<open>Raised name\<close>, and a result that may raise is a sum with the exception on the
  left.
\<close>

datatype exn = Raised pystr

text \<open>One caption of the transcript provider: \<^verbatim>\<open>entry["start"]\<close>, \<^verbatim>\<open>entry["text"]\<close>.\<close>

record entry =
  entry_start :: real
  entry_text :: pystr

text \<open>The metadata dictionary, which always has the keys title, channel and url.\<close>

record metadata =
  title :: pystr
  channel :: pystr
  url :: pystr

text \<open>What \<^verbatim>\<open>datetime.datetime.now()\<close> returns.\<close>

record datetime =
  year :: nat
  month :: nat
  day :: nat
  hour :: nat
  minute :: nat
  second :: nat

text \<open>
  \<^item> \<open>argv\<close> is \<^verbatim>\<open>sys.argv\<close>; \<open>input_line\<close> is what \<^verbatim>\<open>input(prompt)\<close> returns or raises;
    \<open>getenv\<close> is \<^verbatim>\<open>os.getenv\<close>.
  \<^item> \<open>transcript_api video_id languages\<close> is \<^verbatim>\<open>YouTubeTranscriptApi.get_transcript\<close>.
  \<^item> \<open>translator k text dest\<close> is the outcome of the \<open>k\<close>-th call (counted from 0) of
    \<^verbatim>\<open>translator.translate(text, dest=dest).text\<close>; the provider may answer the same
    text differently at different calls.  Constructing the \<^verbatim>\<open>Translator\<close> object is
    taken to succeed.
  \<^item> \<open>pytube url\<close> is the outcome of \<^verbatim>\<open>YouTube(url)\<close> followed by reading \<^verbatim>\<open>yt.title\<close> and
    \<^verbatim>\<open>yt.author\<close>: the pair of both, or the first exception among the three steps.
  \<^item> \<open>pyyoutube api_key video_id\<close> is the outcome of importing the library, building
    \<^verbatim>\<open>Api(api_key=api_key)\<close>, calling \<^verbatim>\<open>get_video_by_id\<close> and reading
    \<^verbatim>\<open>snippet.title\<close> and \<^verbatim>\<open>snippet.channelTitle\<close> of the items: the list of
    these pairs, or the first exception.
  \<^item> \<open>now\<close> is the clock at the time of writing.
  \<^item> \<open>open_w path\<close> is \<open>None\<close> when \<^verbatim>\<open>open(path, "w", encoding="utf-8")\<close> succeeds and the
    exception it raises otherwise.
\<close>

record env =
  argv :: "pystr list"
  input_line :: "exn + pystr"
  getenv :: "pystr \<Rightarrow> pystr option"
  transcript_api :: "pystr \<Rightarrow> pystr list \<Rightarrow> exn + entry list"
  translator :: "nat \<Rightarrow> pystr \<Rightarrow> pystr \<Rightarrow> exn + pystr"
  pytube :: "pystr \<Rightarrow> exn + pystr \<times> pystr"
  pyyoutube :: "pystr \<Rightarrow> pystr \<Rightarrow> exn + (pystr \<times> pystr) list"
  now :: datetime
  open_w :: "pystr \<Rightarrow> exn option"

text \<open>
  The state a run changes: the files (path to the text written through the handle), what
  was sent to standard output, and which metadata providers were consulted, in order.
\<close>

datatype out_item = Prompt pystr | Print "metadata option"

datatype consult = Scraping pystr | StructuredApi pystr pystr

record world =
  files :: "pystr \<Rightarrow> pystr option"
  stdout :: "out_item list"
  consulted :: "consult list"

section \<open>Transcript assembler: \<^verbatim>\<open>get_transcript\<close>\<close>

text \<open>
  The Korean literals of the loop, as code points: the tag in parentheses that reads
  "Korean translation" (U+0028 U+D55C U+AE00 U+0020 U+BC88 U+C5ED U+0029) and the
  placeholder that reads "error occurred" (U+C624 U+B958 U+0020 U+BC1C U+C0DD).
\<close>

definition translation_tag :: pystr where
  "translation_tag = [40, 54620, 44544, 32, 48264, 50669, 41]"

definition error_placeholder :: pystr where
  "error_placeholder = [50724, 47448, 32, 48156, 49373]"

text \<open>\<^verbatim>\<open>f"[{timestamp}]({base_url}&t={start_sec}s)"\<close>\<close>

definition timestamp_link :: "pystr \<Rightarrow> real \<Rightarrow> pystr" where
  "timestamp_link base_url st =
     (let start_sec = py_int st;
          timestamp = format_timestamp st
      in ascii ''['' @ timestamp @ ascii ''](''  @ base_url @ ascii ''&t='' @ py_str_int start_sec
           @ ascii ''s)'')"

text \<open>
  The \<^verbatim>\<open>for\<close> loop over the entries.  \<open>k\<close> counts the entries already visited and
  \<open>lines\<close> is the list the loop appends to.
\<close>

fun transcript_loop :: "env \<Rightarrow> pystr \<Rightarrow> bool \<Rightarrow> nat \<Rightarrow> entry list \<Rightarrow> pystr list \<Rightarrow> pystr list" where
  "transcript_loop env base_url translate k [] lines = lines"
| "transcript_loop env base_url translate k (e # es) lines =
     (let link = timestamp_link base_url (entry_start e);
          text = entry_text e;
          lines1 = lines @ [link @ ascii '' '' @ text];
          lines2 =
            (if translate then
               (case translator env k text (ascii ''ko'') of
                  Inr translated \<Rightarrow>
                    lines1 @ [link @ ascii '' '' @ translation_tag @ ascii '' '' @ translated]
                | Inl err \<Rightarrow>
                    lines1 @ [link @ ascii '' '' @ translation_tag @ ascii '' '' @ error_placeholder])
             else lines1)
      in transcript_loop env base_url translate (Suc k) es lines2)"

definition watch_url :: "pystr \<Rightarrow> pystr" where
  "watch_url video_id = ascii ''https://www.youtube.com/watch?v='' @ video_id"

text \<open>The list \<^verbatim>\<open>lines\<close> when the loop is over.\<close>

definition transcript_lines :: "env \<Rightarrow> pystr \<Rightarrow> bool \<Rightarrow> entry list \<Rightarrow> pystr list" where
  "transcript_lines env video_id translate transcript_list =
     transcript_loop env (watch_url video_id) translate 0 transcript_list []"

text \<open>An exception of the transcript provider is not caught here.\<close>

definition get_transcript :: "env \<Rightarrow> pystr \<Rightarrow> bool \<Rightarrow> exn + pystr" where
  "get_transcript env video_id translate =
     (case transcript_api env video_id [ascii ''en'', ascii ''ko''] of
        Inl err \<Rightarrow> Inl err
      | Inr transcript_list \<Rightarrow>
          Inr (py_join [10] (transcript_lines env video_id translate transcript_list)))"

section \<open>Metadata fallback chain: \<^verbatim>\<open>get_video_metadata\<close>\<close>

text \<open>
  The first \<^verbatim>\<open>try\<close> block returns the record when the title is truthy; an exception
  or an empty title falls through to the second attempt.  There, \<^verbatim>\<open>if api_key:\<close>
  holds for a variable that is set and not empty.
\<close>

definition get_video_metadata :: "env \<Rightarrow> pystr \<Rightarrow> world \<Rightarrow> metadata option \<times> world" where
  "get_video_metadata env video_id w =
     (let url = watch_url video_id;
          w1 = w\<lparr>consulted := consulted w @ [Scraping url]\<rparr>;
          first_try =
            (case pytube env url of
               Inr (yt_title, yt_author) \<Rightarrow>
                 (let metadata = \<lparr>title = yt_title, channel = yt_author, url = url\<rparr>
                  in if title metadata \<noteq> [] then Some metadata else None)
             | Inl err \<Rightarrow> None)
      in case first_try of
           Some metadata \<Rightarrow> (Some metadata, w1)
         | None \<Rightarrow>
             (case getenv env (ascii ''YOUTUBE_API_KEY'') of
                None \<Rightarrow> (None, w1)
              | Some api_key \<Rightarrow>
                  if api_key \<noteq> [] then
                    (let w2 = w1\<lparr>consulted := consulted w1 @ [StructuredApi api_key video_id]\<rparr>
                     in case pyyoutube env api_key video_id of
                          Inr items \<Rightarrow>
                            (case items of
                               item # rest \<Rightarrow>
                                 (Some \<lparr>title = fst item, channel = snd item, url = url\<rparr>, w2)
                             | [] \<Rightarrow> (None, w2))
                        | Inl err \<Rightarrow> (None, w2))
                  else (None, w1)))"

section \<open>Report writer: \<^verbatim>\<open>sanitize_filename\<close> and \<^verbatim>\<open>save_to_markdown\<close>\<close>

text \<open>
  \<^verbatim>\<open>re.sub(cls, repl, s)\<close> for a pattern that is a single character class: every
  character of the class is replaced, every other character is kept.
\<close>

definition re_sub_class :: "nat list \<Rightarrow> pystr \<Rightarrow> pystr \<Rightarrow> pystr" where
  "re_sub_class cls repl s = concat (map (\<lambda>c. if c \<in> set cls then repl else [c]) s)"

text \<open>The class \<^verbatim>\<open>[\\/*?:"<>|]\<close>: backslash, slash, star, question mark, colon, double quote,
  less-than, greater-than and bar.\<close>

definition forbidden_chars :: "nat list" where
  "forbidden_chars = [92, 47, 42, 63, 58, 34, 60, 62, 124]"

definition sanitize_filename :: "pystr \<Rightarrow> pystr" where
  "sanitize_filename filename = re_sub_class forbidden_chars [] filename"

text \<open>
  \<^verbatim>\<open>now.strftime("%Y%m%d_%H%M%S")\<close>.  The year is written with four digits, which is
  what every platform does from the year 1000 on.
\<close>

definition strftime :: "datetime \<Rightarrow> pystr" where
  "strftime d =
     zfill 4 (digits (year d)) @ zfill 2 (digits (month d)) @ zfill 2 (digits (day d))
       @ ascii ''_''
       @ zfill 2 (digits (hour d)) @ zfill 2 (digits (minute d)) @ zfill 2 (digits (second d))"

text \<open>
  The Korean literals of the document, as code points: the label that reads
  "channel name:" (U+CC44 U+B110 U+BA85 U+003A) and the heading that reads "transcript"
  (U+D2B8 U+B79C U+C2A4 U+D06C U+B9BD U+D2B8).
\<close>

definition channel_label :: pystr where
  "channel_label = [52292, 45328, 47749, 58]"

definition transcript_heading :: pystr where
  "transcript_heading = [53944, 47004, 49828, 53356, 47549, 53944]"

text \<open>\<^verbatim>\<open>f.write(s)\<close> on the text buffered by the handle.\<close>

definition f_write :: "pystr \<Rightarrow> pystr \<Rightarrow> pystr" where
  "f_write buf s = buf @ s"

text \<open>
  Opening with mode \<^verbatim>\<open>"w"\<close> creates or empties the file; leaving the \<^verbatim>\<open>with\<close> block
  stores what was written.  When \<^verbatim>\<open>open\<close> raises, nothing is stored.
\<close>

definition save_to_markdown :: "env \<Rightarrow> metadata \<Rightarrow> pystr \<Rightarrow> world \<Rightarrow> (exn + pystr) \<times> world" where
  "save_to_markdown env metadata transcript w =
     (let time_str = strftime (now env);
          title_sanitized = sanitize_filename (title metadata);
          file_name = time_str @ ascii ''_'' @ title_sanitized @ ascii ''.md'';
          path = ascii ''output/'' @ file_name
      in case open_w env path of
           Some err \<Rightarrow> (Inl err, w)
         | None \<Rightarrow>
             (let f0 = [];
                  f1 = f_write f0 (ascii ''# '' @ title metadata @ [10, 10]);
                  f2 = f_write f1 (ascii ''**'' @ channel_label @ ascii ''** '' @ channel metadata @ [10, 10]);
                  f3 = f_write f2 (ascii ''**URL:** '' @ url metadata @ [10, 10]);
                  f4 = f_write f3 (ascii ''---'' @ [10, 10]);
                  f5 = f_write f4 (ascii ''## '' @ transcript_heading @ [10, 10]);
                  f6 = f_write f5 transcript
              in (Inr file_name, w\<lparr>files := (files w)(path \<mapsto> f6)\<rparr>)))"

section \<open>Pipeline driver: \<^verbatim>\<open>main\<close>\<close>

text \<open>The characters \<^verbatim>\<open>str.strip()\<close> removes from both ends.\<close>

definition py_isspace :: "nat \<Rightarrow> bool" where
  "py_isspace c \<longleftrightarrow> (9 \<le> c \<and> c \<le> 13) \<or> (28 \<le> c \<and> c \<le> 32) \<or> c = 133 \<or> c = 160
     \<or> c = 5760 \<or> (8192 \<le> c \<and> c \<le> 8202) \<or> c = 8232 \<or> c = 8233 \<or> c = 8239 \<or> c = 8287
     \<or> c = 12288"

definition py_strip :: "pystr \<Rightarrow> pystr" where
  "py_strip s = rev (dropWhile py_isspace (rev (dropWhile py_isspace s)))"

text \<open>The prompt of \<^verbatim>\<open>input\<close>, which asks in Korean for the video ID or URL, as code points.\<close>

definition prompt_text :: pystr where
  "prompt_text = [50976, 53916, 48652, 32, 50689, 49345, 32, 73, 68, 32, 46608, 45716, 32, 85,
     82, 76, 51012, 32, 51077, 47141, 54616, 49464, 50836, 58, 32]"

text \<open>The metadata the driver uses when the fallback chain returned \<^verbatim>\<open>None\<close>.\<close>

definition default_metadata :: "pystr \<Rightarrow> metadata" where
  "default_metadata video_id =
     \<lparr>title = video_id, channel = ascii ''Unknown'', url = watch_url video_id\<rparr>"

text \<open>
  Lines 124 to 127: the reference is \<^verbatim>\<open>sys.argv[1]\<close>, or the stripped answer to the
  prompt when there is no argument.
\<close>

definition read_reference :: "env \<Rightarrow> world \<Rightarrow> (exn + pystr) \<times> world" where
  "read_reference env w =
     (if length (argv env) < 2 then
        (case input_line env of
           Inl err \<Rightarrow> Inl err
         | Inr line \<Rightarrow> Inr (py_strip line),
         w\<lparr>stdout := stdout w @ [Prompt prompt_text]\<rparr>)
      else (Inr (argv env ! 1), w))"

text \<open>Line 134: \<^verbatim>\<open>any(arg in ('--translate', '-t') for arg in sys.argv[2:])\<close>.\<close>

definition translate_flag :: "env \<Rightarrow> bool" where
  "translate_flag env =
     list_ex (\<lambda>arg. arg = ascii ''--translate'' \<or> arg = ascii ''-t'') (drop 2 (argv env))"

text \<open>
  The value of a run is what \<^verbatim>\<open>main\<close> returns to its caller (\<open>Inr\<close>) or the exception
  that leaves it (\<open>Inl\<close>).  A returned file name would be \<open>Inr (Some file_name)\<close>; the
  bare \<^verbatim>\<open>return\<close> and the end of the body both return \<^verbatim>\<open>None\<close>.  The result of
  \<^verbatim>\<open>save_to_markdown\<close> is not bound to anything.
\<close>

definition main :: "env \<Rightarrow> world \<Rightarrow> (exn + pystr option) \<times> world" where
  "main env w =
     (let (read, w0) = read_reference env w
      in case read of
           Inl err \<Rightarrow> (Inl err, w0)
         | Inr raw_input_value \<Rightarrow>
             if raw_input_value = [] then (Inr None, w0)
             else
               (let video_id = extract_video_id raw_input_value;
                    translate = translate_flag env;
                    (metadata, w1) = get_video_metadata env video_id w0
                in case get_transcript env video_id translate of
                     Inl err \<Rightarrow> (Inl err, w1)
                   | Inr transcript \<Rightarrow>
                       (let w2 = w1\<lparr>stdout := stdout w1 @ [Print metadata]\<rparr>
                        in if transcript \<noteq> [] then
                             (let metadata1 =
                                    (case metadata of
                                       None \<Rightarrow> default_metadata video_id
                                     | Some m \<Rightarrow> m)
                              in case save_to_markdown env metadata1 transcript w2 of
                                   (Inl err, w3) \<Rightarrow> (Inl err, w3)
                                 | (Inr file_name, w3) \<Rightarrow> (Inr None, w3))
                           else (Inr None, w2))))"

section \<open>Notions of the specification\<close>

text \<open>
  The definitions of this section are not translated from the code: they say in HOL
  what the specification says in words, so that the code can be compared with it.
\<close>

subsection \<open>The pattern of the resolver\<close>

text \<open>
  An occurrence of the pattern in \<open>s\<close> at index \<open>i\<close>: an opener (\<^verbatim>\<open>v=\<close>, of width 2, or
  \<^verbatim>\<open>/\<close>, of width 1), then a token of 11 identifier characters, then what the closing
  condition accepts.  The closing condition is a parameter: \<open>closing_per_spec\<close> is the
  one of the specification (\<^verbatim>\<open>?\<close>, \<^verbatim>\<open>&\<close>, \<^verbatim>\<open>/\<close> or the end of the string), and
  \<open>closing_amended\<close> accepts in addition a single newline that ends the string.
\<close>

definition closing_per_spec :: "pystr \<Rightarrow> bool" where
  "closing_per_spec r \<longleftrightarrow> (case r of [] \<Rightarrow> True | c # cs \<Rightarrow> c = 63 \<or> c = 38 \<or> c = 47)"

definition closing_amended :: "pystr \<Rightarrow> bool" where
  "closing_amended r \<longleftrightarrow> closing_per_spec r \<or> r = [10]"

definition token :: "pystr \<Rightarrow> nat \<Rightarrow> pystr" where
  "token s j = take 11 (drop j s)"

definition opener_at :: "pystr \<Rightarrow> nat \<Rightarrow> nat \<Rightarrow> bool" where
  "opener_at s i n \<longleftrightarrow>
     (n = 2 \<and> take 2 (drop i s) = [118, 61]) \<or> (n = 1 \<and> take 1 (drop i s) = [47])"

definition occurs_at :: "(pystr \<Rightarrow> bool) \<Rightarrow> pystr \<Rightarrow> nat \<Rightarrow> nat \<Rightarrow> bool" where
  "occurs_at closing s i n \<longleftrightarrow>
     opener_at s i n \<and> length (token s (i + n)) = 11 \<and> list_all id_char (token s (i + n))
       \<and> closing (drop (i + n + 11) s)"

definition pattern_matches :: "(pystr \<Rightarrow> bool) \<Rightarrow> pystr \<Rightarrow> bool" where
  "pattern_matches closing s \<longleftrightarrow> (\<exists>i<length s. \<exists>n\<in>{1, 2}. occurs_at closing s i n)"

subsection \<open>The clock string and the deep link\<close>

text \<open>
  Whole seconds as \<^verbatim>\<open>HH:MM:SS\<close>: hours by division by 3600, minutes by division of
  the remainder by 60, seconds as the last remainder, each padded to two digits.
\<close>

definition clock_of_seconds :: "nat \<Rightarrow> pystr" where
  "clock_of_seconds t =
     zfill 2 (digits (t div 3600)) @ [58] @ zfill 2 (digits (t mod 3600 div 60)) @ [58]
       @ zfill 2 (digits (t mod 60))"

text \<open>\<^verbatim>\<open>[HH:MM:SS](watch-url&t=<seconds>s)\<close> for a whole number of seconds.\<close>

definition deep_link :: "pystr \<Rightarrow> nat \<Rightarrow> pystr" where
  "deep_link video_id t =
     ascii ''['' @ clock_of_seconds t @ ascii ''](''  @ watch_url video_id @ ascii ''&t=''
       @ digits t @ ascii ''s)''"

subsection \<open>The lines of an entry\<close>

definition original_line :: "pystr \<Rightarrow> entry \<Rightarrow> pystr" where
  "original_line base_url e =
     timestamp_link base_url (entry_start e) @ ascii '' '' @ entry_text e"

definition translated_line :: "pystr \<Rightarrow> entry \<Rightarrow> pystr \<Rightarrow> pystr" where
  "translated_line base_url e body =
     timestamp_link base_url (entry_start e) @ ascii '' '' @ translation_tag @ ascii '' '' @ body"

text \<open>What follows the tag on the second line of the \<open>k\<close>-th entry.\<close>

definition second_text :: "env \<Rightarrow> nat \<Rightarrow> entry \<Rightarrow> pystr" where
  "second_text env k e =
     (case translator env k (entry_text e) (ascii ''ko'') of
        Inr translated \<Rightarrow> translated
      | Inl err \<Rightarrow> error_placeholder)"

subsection \<open>Success of the metadata providers\<close>

text \<open>The scraping provider succeeds when it returns a title that is not empty.\<close>

definition scraping_succeeds :: "env \<Rightarrow> pystr \<Rightarrow> bool" where
  "scraping_succeeds env video_id \<longleftrightarrow>
     (case pytube env (watch_url video_id) of Inr (t, a) \<Rightarrow> t \<noteq> [] | Inl err \<Rightarrow> False)"

text \<open>
  The structured provider succeeds when a credential is configured and the response
  has at least one item.
\<close>

definition structured_api_succeeds :: "env \<Rightarrow> pystr \<Rightarrow> bool" where
  "structured_api_succeeds env video_id \<longleftrightarrow>
     (case getenv env (ascii ''YOUTUBE_API_KEY'') of
        None \<Rightarrow> False
      | Some api_key \<Rightarrow> api_key \<noteq> [] \<and>
          (case pyyoutube env api_key video_id of Inr items \<Rightarrow> items \<noteq> [] | Inl err \<Rightarrow> False))"

text \<open>The providers consulted between two states of the world.\<close>

definition new_consults :: "world \<Rightarrow> world \<Rightarrow> consult list" where
  "new_consults w w' = drop (length (consulted w)) (consulted w')"

subsection \<open>The report\<close>

text \<open>
  The layout of the document, line by line; an empty element is a blank line.  The
  last element is the transcript body as it was handed to the writer.
\<close>

definition report_layout :: "metadata \<Rightarrow> pystr \<Rightarrow> pystr" where
  "report_layout m body =
     py_join [10]
       [ascii ''# '' @ title m, [],
        ascii ''**'' @ channel_label @ ascii ''** '' @ channel m, [],
        ascii ''**URL:** '' @ url m, [],
        ascii ''---'', [],
        ascii ''## '' @ transcript_heading, [],
        body]"

text \<open>Fixed-width decimal fields, and \<^verbatim>\<open>YYYYMMDD_HHMMSS\<close>.\<close>

definition two_digits :: "nat \<Rightarrow> pystr" where
  "two_digits n = [48 + n div 10, 48 + n mod 10]"

definition four_digits :: "nat \<Rightarrow> pystr" where
  "four_digits n = [48 + n div 1000, 48 + n div 100 mod 10, 48 + n div 10 mod 10, 48 + n mod 10]"

definition stamp :: "datetime \<Rightarrow> pystr" where
  "stamp d = four_digits (year d) @ two_digits (month d) @ two_digits (day d) @ ascii ''_''
     @ two_digits (hour d) @ two_digits (minute d) @ two_digits (second d)"

text \<open>A date and time of day that a calendar has, with a year of four digits.\<close>

definition on_calendar :: "datetime \<Rightarrow> bool" where
  "on_calendar d \<longleftrightarrow> 1000 \<le> year d \<and> year d \<le> 9999 \<and> 1 \<le> month d \<and> month d \<le> 12
     \<and> 1 \<le> day d \<and> day d \<le> 31 \<and> hour d < 24 \<and> minute d < 60 \<and> second d < 60"

text \<open>
  The file name of the report: the stamp, an underscore, the title without the nine
  characters backslash (92), slash (47), star (42), question mark (63), colon (58),
  double quote (34), less-than (60), greater-than (62) and bar (124), and \<^verbatim>\<open>.md\<close>.
\<close>

definition report_name :: "datetime \<Rightarrow> pystr \<Rightarrow> pystr" where
  "report_name d t =
     stamp d @ ascii ''_'' @ filter (\<lambda>c. c \<notin> {92, 47, 42, 63, 58, 34, 60, 62, 124}) t
       @ ascii ''.md''"

section \<open>Example runs\<close>

text \<open>
  A run on \<^verbatim>\<open>https://youtu.be/dQw4w9WgXcQ?t=3\<close> with \<^verbatim>\<open>-t\<close>: two captions, a translator
  that fails on the second one, both metadata providers available, and a clock that
  shows 2025-03-09 07:05:00.  The other environments change one provider each.
\<close>

definition demo_id :: pystr where
  "demo_id = ascii ''dQw4w9WgXcQ''"

definition demo_reference :: pystr where
  "demo_reference = ascii ''https://youtu.be/dQw4w9WgXcQ?t=3''"

definition demo_entries :: "entry list" where
  "demo_entries =
     [\<lparr>entry_start = 3 / 2, entry_text = ascii ''hello''\<rparr>,
      \<lparr>entry_start = 3725, entry_text = ascii ''bye''\<rparr>]"

definition demo_env :: env where
  "demo_env =
     \<lparr>argv = [ascii ''extractor.py'', demo_reference, ascii ''-t''],
      input_line = Inl (Raised (ascii ''EOFError'')),
      getenv = (\<lambda>name. if name = ascii ''YOUTUBE_API_KEY'' then Some (ascii ''key'') else None),
      transcript_api = (\<lambda>video_id langs.
        if video_id = demo_id then Inr demo_entries
        else Inl (Raised (ascii ''NoTranscriptFound''))),
      translator = (\<lambda>k text dest.
        if k = 1 then Inl (Raised (ascii ''Timeout'')) else Inr (ascii ''ko:'' @ text)),
      pytube = (\<lambda>u. Inr (ascii ''A: B/C?'', ascii ''Some channel'')),
      pyyoutube = (\<lambda>api_key video_id. Inr [(ascii ''Api title'', ascii ''Api channel'')]),
      now = \<lparr>year = 2025, month = 3, day = 9, hour = 7, minute = 5, second = 0\<rparr>,
      open_w = (\<lambda>path. None)\<rparr>"

definition env_scraping_fails :: env where
  "env_scraping_fails = demo_env\<lparr>pytube := (\<lambda>u. Inl (Raised (ascii ''RegexMatchError'')))\<rparr>"

definition env_no_metadata :: env where
  "env_no_metadata = env_scraping_fails\<lparr>getenv := (\<lambda>name. None)\<rparr>"

definition env_raises :: env where
  "env_raises =
     demo_env\<lparr>transcript_api := (\<lambda>video_id langs. Inl (Raised (ascii ''TranscriptsDisabled'')))\<rparr>"

definition env_no_entries :: env where
  "env_no_entries = demo_env\<lparr>transcript_api := (\<lambda>video_id langs. Inr [])\<rparr>"

definition w_init :: world where
  "w_init = \<lparr>files = (\<lambda>path. None), stdout = [], consulted = []\<rparr>"

definition newline_reference :: pystr where
  "newline_reference = ascii ''/abcdefghijk'' @ [10]"

section \<open>The resolver finds the leftmost occurrence\<close>

lemma closing_group_amended: "closing_group r = closing_amended r"
  by (cases r) (auto simp: closing_group_def closing_amended_def closing_per_spec_def at_dollar_def)

lemma match_id_Some:
  "match_id t = Some g \<longleftrightarrow>
     g = take 11 t \<and> length (take 11 t) = 11 \<and> list_all id_char (take 11 t) \<and> closing_amended (drop 11 t)"
  by (auto simp: match_id_def closing_group_amended min_def)

lemma match_here_Some:
  "match_here s = Some g \<longleftrightarrow> (\<exists>n\<in>{1, 2}. occurs_at closing_amended s 0 n \<and> g = token s n)"
proof (cases "take 2 s = [118, 61]")
  case True
  then have "take 1 s \<noteq> [47]"
    by (cases s) auto
  with True show ?thesis
    by (auto simp: match_here_def match_id_Some occurs_at_def opener_at_def token_def add.commute)
next
  case False
  then show ?thesis
    by (auto simp: match_here_def match_id_Some occurs_at_def opener_at_def token_def add.commute)
qed

lemma match_here_None:
  "match_here s = None \<longleftrightarrow> (\<forall>n\<in>{1, 2}. \<not> occurs_at closing_amended s 0 n)"
proof -
  have "match_here s = None \<longleftrightarrow> (\<forall>g. match_here s \<noteq> Some g)"
    by auto
  then show ?thesis
    by (simp only: match_here_Some) blast
qed

lemma occurs_at_Cons: "occurs_at closing (c # cs) (Suc i) n = occurs_at closing cs i n"
  unfolding occurs_at_def opener_at_def token_def
  by (simp only: add_Suc drop_Suc_Cons)

lemma token_Cons: "token (c # cs) (Suc i + n) = token cs (i + n)"
  unfolding token_def by (simp only: add_Suc drop_Suc_Cons)

lemma occurs_at_Nil: "\<not> occurs_at closing [] i n"
  by (auto simp: occurs_at_def opener_at_def)

lemma re_search_None:
  "re_search s = None \<longleftrightarrow> (\<forall>i<length s. \<forall>n\<in>{1, 2}. \<not> occurs_at closing_amended s i n)"
proof (induction s)
  case Nil
  then show ?case
    by (simp add: match_here_None occurs_at_Nil)
next
  case (Cons c cs)
  have split: "(\<forall>i<length (c # cs). P i) \<longleftrightarrow> P 0 \<and> (\<forall>i<length cs. P (Suc i))" for P
    by (auto simp: less_Suc_eq_0_disj)
  have "(\<forall>i<length (c # cs). \<forall>n\<in>{1, 2}. \<not> occurs_at closing_amended (c # cs) i n) \<longleftrightarrow>
      (\<forall>n\<in>{1, 2}. \<not> occurs_at closing_amended (c # cs) 0 n)
        \<and> (\<forall>i<length cs. \<forall>n\<in>{1, 2}. \<not> occurs_at closing_amended (c # cs) (Suc i) n)"
    by (rule split)
  then have "(\<forall>i<length (c # cs). \<forall>n\<in>{1, 2}. \<not> occurs_at closing_amended (c # cs) i n) \<longleftrightarrow>
      match_here (c # cs) = None \<and> re_search cs = None"
    by (simp only: occurs_at_Cons match_here_None Cons.IH)
  then show ?case
    by (cases "match_here (c # cs)") simp_all
qed

lemma re_search_Some:
  "re_search s = Some g \<Longrightarrow>
     \<exists>i<length s. \<exists>n\<in>{1, 2}. occurs_at closing_amended s i n \<and> g = token s (i + n)
       \<and> (\<forall>j<i. \<forall>m\<in>{1, 2}. \<not> occurs_at closing_amended s j m)"
proof (induction s)
  case Nil
  then show ?case
    by (simp add: match_here_Some occurs_at_Nil)
next
  case (Cons c cs)
  show ?case
  proof (cases "match_here (c # cs)")
    case (Some h)
    with Cons.prems have "match_here (c # cs) = Some g"
      by simp
    then obtain n where "n \<in> {1, 2}" "occurs_at closing_amended (c # cs) 0 n" "g = token (c # cs) n"
      unfolding match_here_Some by blast
    then show ?thesis
      by (intro exI [of _ 0]) auto
  next
    case None
    with Cons.prems have "re_search cs = Some g"
      by simp
    from Cons.IH [OF this] obtain i n where in_cs: "i < length cs" "n \<in> {1, 2}"
      "occurs_at closing_amended cs i n" "g = token cs (i + n)"
      "\<forall>j<i. \<forall>m\<in>{1, 2}. \<not> occurs_at closing_amended cs j m"
      by blast
    have left: "\<forall>j<Suc i. \<forall>m\<in>{1, 2}. \<not> occurs_at closing_amended (c # cs) j m"
    proof (intro allI impI ballI)
      fix j m assume "j < Suc i" "m \<in> {1, 2::nat}"
      then show "\<not> occurs_at closing_amended (c # cs) j m"
        using None in_cs(5) by (cases j) (auto simp: match_here_None occurs_at_Cons)
    qed
    have "Suc i < length (c # cs)"
      using in_cs(1) by simp
    moreover have "occurs_at closing_amended (c # cs) (Suc i) n"
      using in_cs(3) by (simp only: occurs_at_Cons)
    moreover have "g = token (c # cs) (Suc i + n)"
      using in_cs(4) by (simp only: token_Cons)
    ultimately show ?thesis
      using in_cs(2) left by blast
  qed
qed

section \<open>The formatter decomposes the whole seconds\<close>

lemma floor_div_const:
  fixes x :: real
  shows "\<lfloor>x / 3600\<rfloor> = \<lfloor>x\<rfloor> div 3600" and "\<lfloor>x / 60\<rfloor> = \<lfloor>x\<rfloor> div 60"
  using floor_divide_real_eq_div [of 3600 x] floor_divide_real_eq_div [of 60 x] by simp_all

lemma py_floordiv_3600: "py_int (py_floordiv x 3600) = \<lfloor>x\<rfloor> div 3600"
  by (simp add: py_int_def py_floordiv_def floor_div_const ceiling_def)

lemma py_mod_floor:
  "\<lfloor>py_mod x 3600\<rfloor> = \<lfloor>x\<rfloor> mod 3600" "\<lfloor>py_mod x 60\<rfloor> = \<lfloor>x\<rfloor> mod 60"
proof -
  have "py_mod x 3600 = x - of_int (3600 * (\<lfloor>x\<rfloor> div 3600))"
    by (simp add: py_mod_def floor_div_const)
  then have "\<lfloor>py_mod x 3600\<rfloor> = \<lfloor>x\<rfloor> - 3600 * (\<lfloor>x\<rfloor> div 3600)"
    by (simp only: floor_diff_of_int)
  then show "\<lfloor>py_mod x 3600\<rfloor> = \<lfloor>x\<rfloor> mod 3600"
    by (simp add: minus_mult_div_eq_mod)
  have "py_mod x 60 = x - of_int (60 * (\<lfloor>x\<rfloor> div 60))"
    by (simp add: py_mod_def floor_div_const)
  then have "\<lfloor>py_mod x 60\<rfloor> = \<lfloor>x\<rfloor> - 60 * (\<lfloor>x\<rfloor> div 60)"
    by (simp only: floor_diff_of_int)
  then show "\<lfloor>py_mod x 60\<rfloor> = \<lfloor>x\<rfloor> mod 60"
    by (simp add: minus_mult_div_eq_mod)
qed

lemma py_mod_nonneg: "0 \<le> py_mod x 3600" "0 \<le> py_mod x 60"
proof -
  have "0 \<le> \<lfloor>py_mod x 3600\<rfloor>" "0 \<le> \<lfloor>py_mod x 60\<rfloor>"
    by (simp_all add: py_mod_floor)
  then show "0 \<le> py_mod x 3600" "0 \<le> py_mod x 60"
    by simp_all
qed

lemma py_minutes: "py_int (py_floordiv (py_mod x 3600) 60) = \<lfloor>x\<rfloor> mod 3600 div 60"
  by (simp only: py_floordiv_3600 py_int_def py_floordiv_def floor_div_const py_mod_floor
      floor_of_int ceiling_of_int if_cancel)

lemma py_secs: "py_int (py_mod x 60) = \<lfloor>x\<rfloor> mod 60"
  by (simp add: py_int_def py_mod_nonneg py_mod_floor)

lemma format_timestamp_floor:
  "format_timestamp x =
     fmt_02d (\<lfloor>x\<rfloor> div 3600) @ [58] @ fmt_02d (\<lfloor>x\<rfloor> mod 3600 div 60) @ [58] @ fmt_02d (\<lfloor>x\<rfloor> mod 60)"
  by (simp add: format_timestamp_def py_floordiv_3600 py_minutes py_secs)

lemma fmt_02d_nat: "fmt_02d (int n) = zfill 2 (digits n)"
  by (simp add: fmt_02d_def)

lemma format_timestamp_clock:
  assumes "0 \<le> x"
  shows "format_timestamp x = clock_of_seconds (nat \<lfloor>x\<rfloor>)"
proof -
  define t where "t = nat \<lfloor>x\<rfloor>"
  with assms have fl: "\<lfloor>x\<rfloor> = int t" by simp
  have "\<lfloor>x\<rfloor> div 3600 = int (t div 3600)" "\<lfloor>x\<rfloor> mod 3600 div 60 = int (t mod 3600 div 60)"
    "\<lfloor>x\<rfloor> mod 60 = int (t mod 60)"
    by (simp_all add: fl zdiv_int zmod_int)
  then show ?thesis
    unfolding format_timestamp_floor clock_of_seconds_def t_def [symmetric]
    by (simp only: fmt_02d_nat)
qed

section \<open>The lines of the transcript\<close>

lemma transcript_loop_acc:
  "transcript_loop env b tr k es (acc @ ls) = acc @ transcript_loop env b tr k es ls"
proof (cases tr)
  case True
  have "transcript_loop env b True k es (acc @ ls) = acc @ transcript_loop env b True k es ls"
    by (induction es arbitrary: k ls) (simp_all add: Let_def split: sum.split)
  with True show ?thesis by simp
next
  case False
  have "transcript_loop env b False k es (acc @ ls) = acc @ transcript_loop env b False k es ls"
    by (induction es arbitrary: k ls) (simp_all add: Let_def)
  with False show ?thesis by simp
qed

lemma transcript_loop_Cons:
  "transcript_loop env b True k (e # es) [] =
     original_line b e # translated_line b e (second_text env k e)
       # transcript_loop env b True (Suc k) es []"
proof -
  have "transcript_loop env b True k (e # es) [] =
      transcript_loop env b True (Suc k) es
        ([original_line b e, translated_line b e (second_text env k e)] @ [])"
    by (simp add: Let_def original_line_def translated_line_def second_text_def split: sum.split)
  then show ?thesis
    by (simp only: transcript_loop_acc) simp
qed

lemma transcript_loop_Cons_plain:
  "transcript_loop env b False k (e # es) [] =
     original_line b e # transcript_loop env b False (Suc k) es []"
proof -
  have "transcript_loop env b False k (e # es) [] =
      transcript_loop env b False (Suc k) es ([original_line b e] @ [])"
    by (simp add: Let_def original_line_def)
  then show ?thesis
    by (simp only: transcript_loop_acc) simp
qed

declare transcript_loop.simps(2) [simp del]

lemma transcript_loop_length:
  "length (transcript_loop env b True k es []) = 2 * length es"
  by (induction es arbitrary: k) (simp_all add: transcript_loop_Cons)

lemma transcript_loop_nth:
  "j < length es \<Longrightarrow>
     transcript_loop env b True k es [] ! (2 * j) = original_line b (es ! j) \<and>
     transcript_loop env b True k es [] ! (2 * j + 1)
       = translated_line b (es ! j) (second_text env (k + j) (es ! j))"
proof (induction es arbitrary: k j)
  case Nil
  then show ?case by simp
next
  case (Cons e es)
  show ?case
  proof (cases j)
    case 0
    then show ?thesis
      by (simp add: transcript_loop_Cons)
  next
    case (Suc i)
    with Cons.prems have "i < length es"
      by simp
    from Cons.IH [OF this, of "Suc k"] Suc show ?thesis
      by (simp add: transcript_loop_Cons)
  qed
qed

lemma transcript_loop_nonempty:
  "es \<noteq> [] \<Longrightarrow> py_join [10] (transcript_loop env b tr k es []) \<noteq> []"
proof (cases es)
  case Nil
  assume "es \<noteq> []"
  with Nil show ?thesis by simp
next
  case (Cons e rest)
  have first: "original_line b e \<noteq> []"
    by (simp add: original_line_def timestamp_link_def ascii_def)
  have "py_join [10] (x # xs) \<noteq> []" if "x \<noteq> []" for x :: pystr and xs
    using that by (cases xs) simp_all
  with first Cons show ?thesis
    by (cases tr) (simp_all add: transcript_loop_Cons transcript_loop_Cons_plain)
qed

lemma timestamp_link_deep:
  "0 \<le> x \<Longrightarrow> timestamp_link (watch_url video_id) x = deep_link video_id (nat \<lfloor>x\<rfloor>)"
  by (simp add: timestamp_link_def deep_link_def format_timestamp_clock py_int_def py_str_int_def Let_def)

section \<open>The fallback chain\<close>

lemma metadata_primary:
  assumes "pytube env (watch_url video_id) = Inr (t, a)" "t \<noteq> []"
  shows "get_video_metadata env video_id w =
     (Some \<lparr>title = t, channel = a, url = watch_url video_id\<rparr>,
      w\<lparr>consulted := consulted w @ [Scraping (watch_url video_id)]\<rparr>)"
  using assms by (simp add: get_video_metadata_def Let_def)

lemma metadata_consults:
  "new_consults w (snd (get_video_metadata env video_id w)) = [Scraping (watch_url video_id)]
   \<or> (\<not> scraping_succeeds env video_id
       \<and> (\<exists>api_key. getenv env (ascii ''YOUTUBE_API_KEY'') = Some api_key \<and> api_key \<noteq> []
            \<and> new_consults w (snd (get_video_metadata env video_id w))
                = [Scraping (watch_url video_id), StructuredApi api_key video_id]))"
  by (auto simp: get_video_metadata_def new_consults_def scraping_succeeds_def Let_def
      split: sum.splits option.splits list.splits prod.splits)

lemma metadata_none:
  "\<not> scraping_succeeds env video_id \<Longrightarrow> \<not> structured_api_succeeds env video_id \<Longrightarrow>
     fst (get_video_metadata env video_id w) = None"
  by (auto simp: get_video_metadata_def scraping_succeeds_def structured_api_succeeds_def Let_def
      split: sum.splits option.splits list.splits prod.splits)

lemma metadata_files: "files (snd (get_video_metadata env video_id w)) = files w"
  by (auto simp: get_video_metadata_def Let_def
      split: sum.splits option.splits list.splits prod.splits)

lemma metadata_result_world:
  "fst (get_video_metadata env video_id w) = fst (get_video_metadata env video_id w')"
  by (auto simp: get_video_metadata_def Let_def
      split: sum.splits option.splits list.splits prod.splits)

section \<open>The writer\<close>

lemma digits_1: "n < 10 \<Longrightarrow> digits n = [48 + n]"
  by (simp add: digits.simps)

lemma digits_2: "10 \<le> n \<Longrightarrow> n < 100 \<Longrightarrow> digits n = [48 + n div 10, 48 + n mod 10]"
  by (subst digits.simps) (simp add: digits_1)

lemma digits_3: "100 \<le> n \<Longrightarrow> n < 1000 \<Longrightarrow> digits n = [48 + n div 100, 48 + n div 10 mod 10, 48 + n mod 10]"
  by (subst digits.simps) (simp add: digits_2 div_mult2_eq [symmetric])

lemma digits_4: "1000 \<le> n \<Longrightarrow> n < 10000 \<Longrightarrow>
    digits n = [48 + n div 1000, 48 + n div 100 mod 10, 48 + n div 10 mod 10, 48 + n mod 10]"
  by (subst digits.simps) (simp add: digits_3 div_mult2_eq [symmetric])

lemma zfill_two: "n < 100 \<Longrightarrow> zfill 2 (digits n) = two_digits n"
  by (cases "n < 10") (simp_all add: zfill_def two_digits_def digits_1 digits_2)

lemma zfill_four: "1000 \<le> n \<Longrightarrow> n < 10000 \<Longrightarrow> zfill 4 (digits n) = four_digits n"
  by (simp add: zfill_def four_digits_def digits_4)

lemma strftime_stamp: "on_calendar d \<Longrightarrow> strftime d = stamp d"
  by (simp add: on_calendar_def strftime_def stamp_def zfill_two zfill_four)

lemma sanitize_filter:
  "sanitize_filename t = filter (\<lambda>c. c \<notin> {92, 47, 42, 63, 58, 34, 60, 62, 124}) t"
  unfolding sanitize_filename_def re_sub_class_def forbidden_chars_def
  by (induction t) simp_all

lemma save_to_markdown_ok:
  assumes "open_w env (ascii ''output/'' @ strftime (now env) @ ascii ''_'' @ sanitize_filename (title m) @ ascii ''.md'') = None"
  shows "save_to_markdown env m body w =
     (Inr (strftime (now env) @ ascii ''_'' @ sanitize_filename (title m) @ ascii ''.md''),
      w\<lparr>files := (files w)(ascii ''output/'' @ strftime (now env) @ ascii ''_'' @ sanitize_filename (title m) @ ascii ''.md'' \<mapsto> report_layout m body)\<rparr>)"
  using assms by (simp add: save_to_markdown_def Let_def f_write_def report_layout_def)

lemma save_to_markdown_named:
  assumes "on_calendar (now env)"
    and "open_w env (ascii ''output/'' @ report_name (now env) (title m)) = None"
  shows "save_to_markdown env m body w =
     (Inr (report_name (now env) (title m)),
      w\<lparr>files := (files w)(ascii ''output/'' @ report_name (now env) (title m) \<mapsto> report_layout m body)\<rparr>)"
proof -
  have name: "strftime (now env) @ ascii ''_'' @ sanitize_filename (title m) @ ascii ''.md''
      = report_name (now env) (title m)"
    using assms(1) by (simp add: report_name_def strftime_stamp sanitize_filter)
  from save_to_markdown_ok [of env m body w] assms(2) show ?thesis
    by (simp only: name)
qed

section \<open>The driver\<close>

lemma read_reference_files: "files (snd (read_reference env w)) = files w"
  by (simp add: read_reference_def)

lemma get_transcript_raises:
  "transcript_api env video_id [ascii ''en'', ascii ''ko''] = Inl err \<Longrightarrow>
     get_transcript env video_id tr = Inl err"
  by (simp add: get_transcript_def)

lemma get_transcript_no_entries:
  "transcript_api env video_id [ascii ''en'', ascii ''ko''] = Inr [] \<Longrightarrow>
     get_transcript env video_id tr = Inr []"
  by (simp add: get_transcript_def transcript_lines_def)

lemma get_transcript_entries:
  "transcript_api env video_id [ascii ''en'', ascii ''ko''] = Inr es \<Longrightarrow> es \<noteq> [] \<Longrightarrow>
     get_transcript env video_id tr = Inr (py_join [10] (transcript_lines env video_id tr es))
     \<and> py_join [10] (transcript_lines env video_id tr es) \<noteq> []"
  by (simp add: get_transcript_def transcript_lines_def transcript_loop_nonempty)

lemma main_transcript_raises:
  assumes "fst (read_reference env w) = Inr raw" "raw \<noteq> []"
    and "transcript_api env (extract_video_id raw) [ascii ''en'', ascii ''ko''] = Inl err"
  shows "fst (main env w) = Inl err" and "files (snd (main env w)) = files w"
proof -
  obtain w0 where rd: "read_reference env w = (Inr raw, w0)"
    using assms(1) by (cases "read_reference env w") simp
  obtain md w1 where gm: "get_video_metadata env (extract_video_id raw) w0 = (md, w1)"
    by (cases "get_video_metadata env (extract_video_id raw) w0")
  have tr: "get_transcript env (extract_video_id raw) (translate_flag env) = Inl err"
    using assms(3) by (rule get_transcript_raises)
  have m: "main env w = (Inl err, w1)"
    using assms(2) by (simp add: main_def rd gm tr Let_def)
  show "fst (main env w) = Inl err"
    by (simp add: m)
  have "files w1 = files w0"
    using metadata_files [of env "extract_video_id raw" w0] by (simp add: gm)
  moreover have "files w0 = files w"
    using read_reference_files [of env w] by (simp add: rd)
  ultimately show "files (snd (main env w)) = files w"
    by (simp add: m)
qed

lemma main_no_entries:
  assumes "fst (read_reference env w) = Inr raw" "raw \<noteq> []"
    and "transcript_api env (extract_video_id raw) [ascii ''en'', ascii ''ko''] = Inr []"
  shows "fst (main env w) = Inr None" and "files (snd (main env w)) = files w"
proof -
  obtain w0 where rd: "read_reference env w = (Inr raw, w0)"
    using assms(1) by (cases "read_reference env w") simp
  obtain md w1 where gm: "get_video_metadata env (extract_video_id raw) w0 = (md, w1)"
    by (cases "get_video_metadata env (extract_video_id raw) w0")
  have tr: "get_transcript env (extract_video_id raw) (translate_flag env) = Inr []"
    using assms(3) by (rule get_transcript_no_entries)
  have m: "main env w = (Inr None, w1\<lparr>stdout := stdout w1 @ [Print md]\<rparr>)"
    using assms(2) by (simp add: main_def rd gm tr Let_def)
  show "fst (main env w) = Inr None"
    by (simp add: m)
  have "files w1 = files w0"
    using metadata_files [of env "extract_video_id raw" w0] by (simp add: gm)
  moreover have "files w0 = files w"
    using read_reference_files [of env w] by (simp add: rd)
  ultimately show "files (snd (main env w)) = files w"
    by (simp add: m)
qed

lemma main_writes:
  assumes "fst (read_reference env w) = Inr raw" "raw \<noteq> []"
    and "transcript_api env (extract_video_id raw) [ascii ''en'', ascii ''ko''] = Inr es" "es \<noteq> []"
    and "(case fst (get_video_metadata env (extract_video_id raw) w) of
            None \<Rightarrow> default_metadata (extract_video_id raw) | Some x \<Rightarrow> x) = m"
    and "on_calendar (now env)"
    and "open_w env (ascii ''output/'' @ report_name (now env) (title m)) = None"
  shows "fst (main env w) = Inr None"
    and "files (snd (main env w)) (ascii ''output/'' @ report_name (now env) (title m))
      = Some (report_layout m
          (py_join [10] (transcript_lines env (extract_video_id raw) (translate_flag env) es)))"
proof -
  obtain w0 where rd: "read_reference env w = (Inr raw, w0)"
    using assms(1) by (cases "read_reference env w") simp
  obtain md w1 where gm: "get_video_metadata env (extract_video_id raw) w0 = (md, w1)"
    by (cases "get_video_metadata env (extract_video_id raw) w0")
  have "fst (get_video_metadata env (extract_video_id raw) w) = md"
    using metadata_result_world [of env "extract_video_id raw" w w0] by (simp add: gm)
  then have m: "(case md of None \<Rightarrow> default_metadata (extract_video_id raw) | Some x \<Rightarrow> x) = m"
    using assms(5) by simp
  define body where
    "body = py_join [10] (transcript_lines env (extract_video_id raw) (translate_flag env) es)"
  have tr: "get_transcript env (extract_video_id raw) (translate_flag env) = Inr body"
    and body: "body \<noteq> []"
    using get_transcript_entries [OF assms(3,4), of "translate_flag env"] by (simp_all add: body_def)
  define w2 where "w2 = w1\<lparr>stdout := stdout w1 @ [Print md]\<rparr>"
  have sv: "save_to_markdown env m body w2 =
     (Inr (report_name (now env) (title m)),
      w2\<lparr>files := (files w2)(ascii ''output/'' @ report_name (now env) (title m) \<mapsto> report_layout m body)\<rparr>)"
    using assms(6,7) by (rule save_to_markdown_named)
  have "main env w = (Inr None,
      w2\<lparr>files := (files w2)(ascii ''output/'' @ report_name (now env) (title m) \<mapsto> report_layout m body)\<rparr>)"
    using assms(2) body sv by (simp add: main_def rd gm tr Let_def m w2_def [symmetric])
  then show "fst (main env w) = Inr None"
    and "files (snd (main env w)) (ascii ''output/'' @ report_name (now env) (title m))
      = Some (report_layout m
          (py_join [10] (transcript_lines env (extract_video_id raw) (translate_flag env) es)))"
    by (simp_all add: body_def)
qed

lemma main_never_returns_name: "fst (main env w) \<noteq> Inr (Some file_name)"
  by (auto simp: main_def Let_def split: prod.splits sum.splits if_splits option.splits)

section \<open>Facts about the example runs\<close>

lemma demo_reference_id: "extract_video_id demo_reference = demo_id"
  by (simp add: demo_reference_def demo_id_def extract_video_id_def match_here_def match_id_def
      closing_group_def at_dollar_def id_char_def ascii_def)

lemma demo_reference_nonempty: "demo_reference \<noteq> []"
  by (simp add: demo_reference_def ascii_def)

lemma demo_stamp: "stamp \<lparr>year = 2025, month = 3, day = 9, hour = 7, minute = 5, second = 0\<rparr>
    = ascii ''20250309_070500''"
  by (simp add: stamp_def four_digits_def two_digits_def ascii_def)

lemma demo_metadata:
  "fst (get_video_metadata demo_env demo_id w)
     = Some \<lparr>title = ascii ''A: B/C?'', channel = ascii ''Some channel'', url = watch_url demo_id\<rparr>"
  by (simp add: get_video_metadata_def demo_env_def Let_def ascii_def)

lemma demo_report_name:
  "report_name (now demo_env) (ascii ''A: B/C?'') = ascii ''20250309_070500_A BC.md''"
  by (simp add: report_name_def demo_env_def demo_stamp) (simp add: ascii_def)

lemma demo_run_hyps:
  "fst (read_reference demo_env w_init) = Inr demo_reference \<and> demo_reference \<noteq> []
      \<and> transcript_api demo_env (extract_video_id demo_reference) [ascii ''en'', ascii ''ko'']
          = Inr demo_entries \<and> demo_entries \<noteq> []
      \<and> (case fst (get_video_metadata demo_env (extract_video_id demo_reference) w_init) of
            None \<Rightarrow> default_metadata (extract_video_id demo_reference) | Some x \<Rightarrow> x)
          = \<lparr>title = ascii ''A: B/C?'', channel = ascii ''Some channel'', url = watch_url demo_id\<rparr>
      \<and> on_calendar (now demo_env)
      \<and> open_w demo_env (ascii ''output/'' @ report_name (now demo_env)
            (title \<lparr>title = ascii ''A: B/C?'', channel = ascii ''Some channel'',
               url = watch_url demo_id\<rparr>)) = None"
proof (intro conjI)
  show "fst (read_reference demo_env w_init) = Inr demo_reference"
    by (simp add: read_reference_def demo_env_def)
  show "demo_reference \<noteq> []" by (rule demo_reference_nonempty)
  show "transcript_api demo_env (extract_video_id demo_reference) [ascii ''en'', ascii ''ko'']
          = Inr demo_entries"
    by (simp add: demo_reference_id) (simp add: demo_env_def)
  show "demo_entries \<noteq> []" by (simp add: demo_entries_def)
  show "(case fst (get_video_metadata demo_env (extract_video_id demo_reference) w_init) of
            None \<Rightarrow> default_metadata (extract_video_id demo_reference) | Some x \<Rightarrow> x)
          = \<lparr>title = ascii ''A: B/C?'', channel = ascii ''Some channel'', url = watch_url demo_id\<rparr>"
    by (simp add: demo_reference_id demo_metadata)
  show "on_calendar (now demo_env)"
    by (simp add: on_calendar_def demo_env_def)
  show "open_w demo_env (ascii ''output/'' @ report_name (now demo_env)
            (title \<lparr>title = ascii ''A: B/C?'', channel = ascii ''Some channel'',
               url = watch_url demo_id\<rparr>)) = None"
    by (simp add: demo_env_def)
qed

section \<open>The claims\<close>

text \<open>
  Claim C1, as amended.  When the transcript provider raises, transcript assembly fails
  with that exception, which leaves the driver uncaught.  When the provider yields no
  entries, assembly does not fail: it returns the empty body, and the guard of the
  driver skips the writer.  In either case no file is written.
\<close>
theorem transcript_unavailable_writes_nothing:
  assumes "fst (read_reference env w) = Inr raw" and "raw \<noteq> []"
  shows "(\<forall>err. transcript_api env (extract_video_id raw) [ascii ''en'', ascii ''ko''] = Inl err \<longrightarrow>
            get_transcript env (extract_video_id raw) translate = Inl err
          \<and> fst (main env w) = Inl err \<and> files (snd (main env w)) = files w)
       \<and> (transcript_api env (extract_video_id raw) [ascii ''en'', ascii ''ko''] = Inr [] \<longrightarrow>
            get_transcript env (extract_video_id raw) translate = Inr []
          \<and> fst (main env w) = Inr None \<and> files (snd (main env w)) = files w)"
  using main_transcript_raises [OF assms] main_no_entries [OF assms]
  by (simp add: get_transcript_raises get_transcript_no_entries)

text \<open>As stated, C1 fails: with no entries the assembly returns the empty body.\<close>

theorem empty_transcript_counterexample:
  "transcript_api env_no_entries demo_id [ascii ''en'', ascii ''ko''] = Inr []
   \<and> get_transcript env_no_entries demo_id True = Inr []"
  by (simp add: get_transcript_def transcript_lines_def env_no_entries_def demo_env_def)

theorem transcript_unavailable_writes_nothing_witness:
  "fst (read_reference env_raises w_init) = Inr demo_reference \<and> demo_reference \<noteq> []
   \<and> transcript_api env_raises (extract_video_id demo_reference) [ascii ''en'', ascii ''ko'']
       = Inl (Raised (ascii ''TranscriptsDisabled''))
   \<and> fst (main env_raises w_init) = Inl (Raised (ascii ''TranscriptsDisabled''))
   \<and> files (snd (main env_raises w_init)) = files w_init
   \<and> fst (read_reference env_no_entries w_init) = Inr demo_reference
   \<and> transcript_api env_no_entries (extract_video_id demo_reference) [ascii ''en'', ascii ''ko'']
       = Inr []
   \<and> fst (main env_no_entries w_init) = Inr None
   \<and> files (snd (main env_no_entries w_init)) = files w_init"
proof -
  have r1: "fst (read_reference env_raises w_init) = Inr demo_reference"
    by (simp add: read_reference_def env_raises_def demo_env_def)
  have r2: "fst (read_reference env_no_entries w_init) = Inr demo_reference"
    by (simp add: read_reference_def env_no_entries_def demo_env_def)
  have t1: "transcript_api env_raises (extract_video_id demo_reference) [ascii ''en'', ascii ''ko'']
       = Inl (Raised (ascii ''TranscriptsDisabled''))"
    by (simp add: env_raises_def demo_env_def)
  have t2: "transcript_api env_no_entries (extract_video_id demo_reference) [ascii ''en'', ascii ''ko'']
       = Inr []"
    by (simp add: env_no_entries_def demo_env_def)
  from transcript_unavailable_writes_nothing [OF r1 demo_reference_nonempty]
    transcript_unavailable_writes_nothing [OF r2 demo_reference_nonempty]
    r1 r2 t1 t2 demo_reference_nonempty
  show ?thesis
    by simp
qed

text \<open>
  Claim C2, as amended.  No run of the driver returns a file name to its caller.  On a
  run that succeeds (a reference was read, the provider yielded at least one entry and
  the file could be opened) the writer returns the file name, the driver drops it and
  returns none, and the file is there under \<^verbatim>\<open>output/\<close>.
\<close>
theorem driver_returns_none:
  "(\<forall>file_name. fst (main env w) \<noteq> Inr (Some file_name))
   \<and> (fst (read_reference env w) = Inr raw \<and> raw \<noteq> []
      \<and> transcript_api env (extract_video_id raw) [ascii ''en'', ascii ''ko''] = Inr es \<and> es \<noteq> []
      \<and> (case fst (get_video_metadata env (extract_video_id raw) w) of
            None \<Rightarrow> default_metadata (extract_video_id raw) | Some x \<Rightarrow> x) = m
      \<and> on_calendar (now env)
      \<and> open_w env (ascii ''output/'' @ report_name (now env) (title m)) = None
      \<longrightarrow> fst (main env w) = Inr None
        \<and> fst (save_to_markdown env m body w') = Inr (report_name (now env) (title m))
        \<and> files (snd (main env w)) (ascii ''output/'' @ report_name (now env) (title m)) \<noteq> None)"
proof (intro conjI allI impI)
  fix file_name show "fst (main env w) \<noteq> Inr (Some file_name)"
    by (rule main_never_returns_name)
next
  assume h: "fst (read_reference env w) = Inr raw \<and> raw \<noteq> []
      \<and> transcript_api env (extract_video_id raw) [ascii ''en'', ascii ''ko''] = Inr es \<and> es \<noteq> []
      \<and> (case fst (get_video_metadata env (extract_video_id raw) w) of
            None \<Rightarrow> default_metadata (extract_video_id raw) | Some x \<Rightarrow> x) = m
      \<and> on_calendar (now env)
      \<and> open_w env (ascii ''output/'' @ report_name (now env) (title m)) = None"
  then have r: "fst (read_reference env w) = Inr raw" and ne: "raw \<noteq> []"
    and t: "transcript_api env (extract_video_id raw) [ascii ''en'', ascii ''ko''] = Inr es"
    and es: "es \<noteq> []"
    and m: "(case fst (get_video_metadata env (extract_video_id raw) w) of
            None \<Rightarrow> default_metadata (extract_video_id raw) | Some x \<Rightarrow> x) = m"
    and cal: "on_calendar (now env)"
    and op: "open_w env (ascii ''output/'' @ report_name (now env) (title m)) = None"
    by blast+
  show "fst (main env w) = Inr None"
    using r ne t es m cal op by (rule main_writes(1))
  have "files (snd (main env w)) (ascii ''output/'' @ report_name (now env) (title m))
      = Some (report_layout m
          (py_join [10] (transcript_lines env (extract_video_id raw) (translate_flag env) es)))"
    using r ne t es m cal op by (rule main_writes(2))
  then show "files (snd (main env w)) (ascii ''output/'' @ report_name (now env) (title m)) \<noteq> None"
    by simp
  show "fst (save_to_markdown env m body w') = Inr (report_name (now env) (title m))"
    using cal op by (simp add: save_to_markdown_named)
qed

text \<open>As stated, C2 fails: the example run writes its report and returns none.\<close>

theorem driver_returns_none_counterexample:
  "fst (main demo_env w_init) \<noteq> Inr (Some (ascii ''20250309_070500_A BC.md''))
   \<and> fst (main demo_env w_init) = Inr None
   \<and> files (snd (main demo_env w_init)) (ascii ''output/20250309_070500_A BC.md'') \<noteq> None"
proof -
  let ?m = "\<lparr>title = ascii ''A: B/C?'', channel = ascii ''Some channel'', url = watch_url demo_id\<rparr>"
  have n: "ascii ''output/'' @ report_name (now demo_env) (ascii ''A: B/C?'')
      = ascii ''output/20250309_070500_A BC.md''"
    by (simp add: demo_report_name) (simp add: ascii_def)
  have "fst (main demo_env w_init) = Inr None"
    using demo_run_hyps by (intro main_writes(1) [of demo_env w_init demo_reference demo_entries ?m]) blast+
  moreover have "files (snd (main demo_env w_init)) (ascii ''output/'' @ report_name (now demo_env) (title ?m))
      = Some (report_layout ?m (py_join [10]
          (transcript_lines demo_env (extract_video_id demo_reference) (translate_flag demo_env) demo_entries)))"
    using demo_run_hyps by (intro main_writes(2) [of demo_env w_init demo_reference demo_entries ?m]) blast+
  ultimately show ?thesis
    by (simp add: n)
qed

theorem driver_returns_none_witness:
  "fst (read_reference demo_env w_init) = Inr demo_reference \<and> demo_reference \<noteq> []
   \<and> transcript_api demo_env (extract_video_id demo_reference) [ascii ''en'', ascii ''ko'']
       = Inr demo_entries \<and> demo_entries \<noteq> []
   \<and> on_calendar (now demo_env)
   \<and> open_w demo_env (ascii ''output/'' @ report_name (now demo_env) (ascii ''A: B/C?'')) = None
   \<and> fst (main demo_env w_init) = Inr None
   \<and> fst (save_to_markdown demo_env
        \<lparr>title = ascii ''A: B/C?'', channel = ascii ''Some channel'', url = watch_url demo_id\<rparr>
        [] w_init) = Inr (report_name (now demo_env) (ascii ''A: B/C?''))
   \<and> files (snd (main demo_env w_init))
        (ascii ''output/'' @ report_name (now demo_env) (ascii ''A: B/C?'')) \<noteq> None"
  using demo_run_hyps
    driver_returns_none [of demo_env w_init demo_reference demo_entries
      "\<lparr>title = ascii ''A: B/C?'', channel = ascii ''Some channel'', url = watch_url demo_id\<rparr>"
      "[]" w_init]
  by simp

text \<open>
  Claim C3.  Let the provider yield the entries \<open>es\<close> and let translation be enabled.  If
  the translation provider fails on entry \<open>k\<close> only, assembly still returns, its lines
  are twice as many as the entries, in the order of the entries, the second line of
  entry \<open>k\<close> carries the fixed error placeholder and the second line of every other entry
  carries its genuine translation.
\<close>
theorem translation_failure_is_entry_scoped:
  assumes fetched: "transcript_api env video_id [ascii ''en'', ascii ''ko''] = Inr es"
    and k: "k < length es"
    and fails: "translator env k (entry_text (es ! k)) (ascii ''ko'') = Inl err"
    and others: "\<forall>j<length es. j \<noteq> k \<longrightarrow>
        translator env j (entry_text (es ! j)) (ascii ''ko'') = Inr (genuine j)"
  shows "get_transcript env video_id True = Inr (py_join [10] (transcript_lines env video_id True es))
    \<and> length (transcript_lines env video_id True es) = 2 * length es
    \<and> (\<forall>j<length es.
          transcript_lines env video_id True es ! (2 * j)
            = original_line (watch_url video_id) (es ! j)
        \<and> transcript_lines env video_id True es ! (2 * j + 1)
            = translated_line (watch_url video_id) (es ! j)
                (if j = k then error_placeholder else genuine j))"
proof (intro conjI allI impI)
  show "get_transcript env video_id True = Inr (py_join [10] (transcript_lines env video_id True es))"
    by (simp add: get_transcript_def fetched)
  show "length (transcript_lines env video_id True es) = 2 * length es"
    by (simp add: transcript_lines_def transcript_loop_length)
next
  fix j assume j: "j < length es"
  have "second_text env j (es ! j) = (if j = k then error_placeholder else genuine j)"
    using fails others j by (simp add: second_text_def)
  with transcript_loop_nth [OF j, of env "watch_url video_id" 0]
  show "transcript_lines env video_id True es ! (2 * j) = original_line (watch_url video_id) (es ! j)"
    and "transcript_lines env video_id True es ! (2 * j + 1)
            = translated_line (watch_url video_id) (es ! j)
                (if j = k then error_placeholder else genuine j)"
    by (simp_all add: transcript_lines_def)
qed

theorem translation_failure_is_entry_scoped_witness:
  "transcript_api demo_env demo_id [ascii ''en'', ascii ''ko''] = Inr demo_entries
   \<and> 1 < length demo_entries
   \<and> translator demo_env 1 (entry_text (demo_entries ! 1)) (ascii ''ko'')
       = Inl (Raised (ascii ''Timeout''))
   \<and> translator demo_env 0 (entry_text (demo_entries ! 0)) (ascii ''ko'')
       = Inr (ascii ''ko:hello'')
   \<and> length demo_entries = 2
   \<and> length (transcript_lines demo_env demo_id True demo_entries) = 4
   \<and> transcript_lines demo_env demo_id True demo_entries ! 1
       = translated_line (watch_url demo_id) (demo_entries ! 0) (ascii ''ko:hello'')
   \<and> transcript_lines demo_env demo_id True demo_entries ! 3
       = translated_line (watch_url demo_id) (demo_entries ! 1) error_placeholder"
proof -
  have a: "transcript_api demo_env demo_id [ascii ''en'', ascii ''ko''] = Inr demo_entries"
    by (simp add: demo_env_def)
  have b: "1 < length demo_entries"
    by (simp add: demo_entries_def)
  have c: "translator demo_env 1 (entry_text (demo_entries ! 1)) (ascii ''ko'')
       = Inl (Raised (ascii ''Timeout''))"
    by (simp add: demo_env_def)
  have d: "\<forall>j<length demo_entries. j \<noteq> 1 \<longrightarrow>
        translator demo_env j (entry_text (demo_entries ! j)) (ascii ''ko'')
          = Inr (ascii ''ko:'' @ entry_text (demo_entries ! j))"
    by (simp add: demo_env_def)
  have len: "length demo_entries = 2"
    by (simp add: demo_entries_def)
  have e0: "ascii ''ko:'' @ entry_text (demo_entries ! 0) = ascii ''ko:hello''"
    by (simp add: demo_entries_def ascii_def)
  from translation_failure_is_entry_scoped [OF a b c d]
  have l: "length (transcript_lines demo_env demo_id True demo_entries) = 2 * length demo_entries"
    and n: "\<forall>j<length demo_entries.
          transcript_lines demo_env demo_id True demo_entries ! (2 * j)
            = original_line (watch_url demo_id) (demo_entries ! j)
        \<and> transcript_lines demo_env demo_id True demo_entries ! (2 * j + 1)
            = translated_line (watch_url demo_id) (demo_entries ! j)
                (if j = 1 then error_placeholder
                 else ascii ''ko:'' @ entry_text (demo_entries ! j))"
    by blast+
  have d0: "translator demo_env 0 (entry_text (demo_entries ! 0)) (ascii ''ko'')
       = Inr (ascii ''ko:hello'')"
    by (simp add: demo_env_def demo_entries_def ascii_def)
  from n [rule_format, of 0] n [rule_format, of 1] l a b c d0 show ?thesis
    by (simp add: len e0)
qed

text \<open>
  Claim C4.  If the scraping provider returns a title that is not empty, the fallback
  chain returns that provider's title and channel and only the scraping provider was
  consulted.  Whenever the structured provider was consulted, the scraping provider had
  failed and the credential \<^verbatim>\<open>YOUTUBE_API_KEY\<close> was set and not empty.
\<close>
theorem metadata_short_circuit:
  "(\<forall>t a. pytube env (watch_url video_id) = Inr (t, a) \<and> t \<noteq> [] \<longrightarrow>
       fst (get_video_metadata env video_id w)
         = Some \<lparr>title = t, channel = a, url = watch_url video_id\<rparr>
     \<and> new_consults w (snd (get_video_metadata env video_id w))
         = [Scraping (watch_url video_id)])
   \<and> (\<forall>api_key i.
         StructuredApi api_key i \<in> set (new_consults w (snd (get_video_metadata env video_id w)))
           \<longrightarrow> \<not> scraping_succeeds env video_id
             \<and> getenv env (ascii ''YOUTUBE_API_KEY'') = Some api_key \<and> api_key \<noteq> []
             \<and> i = video_id)"
proof (intro conjI allI impI)
  fix t a assume "pytube env (watch_url video_id) = Inr (t, a) \<and> t \<noteq> []"
  then have eq: "get_video_metadata env video_id w =
     (Some \<lparr>title = t, channel = a, url = watch_url video_id\<rparr>,
      w\<lparr>consulted := consulted w @ [Scraping (watch_url video_id)]\<rparr>)"
    by (simp add: metadata_primary)
  show "fst (get_video_metadata env video_id w)
      = Some \<lparr>title = t, channel = a, url = watch_url video_id\<rparr>"
    by (simp add: eq)
  show "new_consults w (snd (get_video_metadata env video_id w)) = [Scraping (watch_url video_id)]"
    by (simp add: eq new_consults_def)
next
  fix api_key i
  assume "StructuredApi api_key i \<in> set (new_consults w (snd (get_video_metadata env video_id w)))"
  with metadata_consults [of w env video_id]
  show "\<not> scraping_succeeds env video_id" "getenv env (ascii ''YOUTUBE_API_KEY'') = Some api_key"
    "api_key \<noteq> []" "i = video_id"
    by auto
qed

theorem metadata_short_circuit_witness:
  "pytube demo_env (watch_url demo_id) = Inr (ascii ''A: B/C?'', ascii ''Some channel'')
   \<and> ascii ''A: B/C?'' \<noteq> []
   \<and> fst (get_video_metadata demo_env demo_id w_init)
       = Some \<lparr>title = ascii ''A: B/C?'', channel = ascii ''Some channel'', url = watch_url demo_id\<rparr>
   \<and> new_consults w_init (snd (get_video_metadata demo_env demo_id w_init))
       = [Scraping (watch_url demo_id)]
   \<and> StructuredApi (ascii ''key'') demo_id
       \<in> set (new_consults w_init (snd (get_video_metadata env_scraping_fails demo_id w_init)))
   \<and> \<not> scraping_succeeds env_scraping_fails demo_id
   \<and> getenv env_scraping_fails (ascii ''YOUTUBE_API_KEY'') = Some (ascii ''key'')"
proof -
  have p: "pytube demo_env (watch_url demo_id) = Inr (ascii ''A: B/C?'', ascii ''Some channel'')
      \<and> ascii ''A: B/C?'' \<noteq> []"
    by (simp add: demo_env_def ascii_def)
  have q: "StructuredApi (ascii ''key'') demo_id
       \<in> set (new_consults w_init (snd (get_video_metadata env_scraping_fails demo_id w_init)))"
    by (simp add: get_video_metadata_def env_scraping_fails_def demo_env_def Let_def ascii_def
        new_consults_def w_init_def)
  from metadata_short_circuit [of demo_env demo_id w_init] p
    metadata_short_circuit [of env_scraping_fails demo_id w_init] q
  show ?thesis
    by blast
qed

text \<open>
  Claim C5.  When neither metadata provider succeeds, the fallback chain returns none;
  and on a run that writes its report (a reference was read, the transcript has entries
  and the file could be opened) the document is the layout of the default record alone:
  the title is the resolved identifier, the channel is \<^verbatim>\<open>Unknown\<close> and the url is the
  watch URL of the identifier.
\<close>
theorem default_metadata_wholesale:
  assumes "\<not> scraping_succeeds env (extract_video_id raw)"
    and "\<not> structured_api_succeeds env (extract_video_id raw)"
    and "fst (read_reference env w) = Inr raw" and "raw \<noteq> []"
    and "transcript_api env (extract_video_id raw) [ascii ''en'', ascii ''ko''] = Inr es"
    and "es \<noteq> []"
    and "on_calendar (now env)"
    and "open_w env (ascii ''output/'' @ report_name (now env) (extract_video_id raw)) = None"
  shows "fst (get_video_metadata env (extract_video_id raw) w) = None
     \<and> fst (main env w) = Inr None
     \<and> files (snd (main env w)) (ascii ''output/'' @ report_name (now env) (extract_video_id raw))
         = Some (report_layout
             \<lparr>title = extract_video_id raw, channel = ascii ''Unknown'',
              url = ascii ''https://www.youtube.com/watch?v='' @ extract_video_id raw\<rparr>
             (py_join [10]
               (transcript_lines env (extract_video_id raw) (translate_flag env) es)))"
proof -
  let ?d = "\<lparr>title = extract_video_id raw, channel = ascii ''Unknown'',
              url = ascii ''https://www.youtube.com/watch?v='' @ extract_video_id raw\<rparr>"
  have none: "fst (get_video_metadata env (extract_video_id raw) w) = None"
    using assms(1,2) by (rule metadata_none)
  then have m: "(case fst (get_video_metadata env (extract_video_id raw) w) of
            None \<Rightarrow> default_metadata (extract_video_id raw) | Some x \<Rightarrow> x) = ?d"
    by (simp add: default_metadata_def watch_url_def)
  have op: "open_w env (ascii ''output/'' @ report_name (now env) (title ?d)) = None"
    using assms(8) by simp
  from none main_writes [OF assms(3,4,5,6) m assms(7) op] show ?thesis
    by simp
qed

theorem default_metadata_wholesale_witness:
  "\<not> scraping_succeeds env_no_metadata (extract_video_id demo_reference)
   \<and> \<not> structured_api_succeeds env_no_metadata (extract_video_id demo_reference)
   \<and> fst (read_reference env_no_metadata w_init) = Inr demo_reference \<and> demo_reference \<noteq> []
   \<and> transcript_api env_no_metadata (extract_video_id demo_reference) [ascii ''en'', ascii ''ko'']
       = Inr demo_entries
   \<and> demo_entries \<noteq> []
   \<and> on_calendar (now env_no_metadata)
   \<and> open_w env_no_metadata
       (ascii ''output/'' @ report_name (now env_no_metadata) (extract_video_id demo_reference))
       = None
   \<and> fst (get_video_metadata env_no_metadata demo_id w_init) = None
   \<and> files (snd (main env_no_metadata w_init)) (ascii ''output/20250309_070500_dQw4w9WgXcQ.md'')
       = Some (report_layout
           \<lparr>title = demo_id, channel = ascii ''Unknown'',
            url = ascii ''https://www.youtube.com/watch?v='' @ demo_id\<rparr>
           (py_join [10] (transcript_lines env_no_metadata demo_id True demo_entries)))"
proof -
  have a: "\<not> scraping_succeeds env_no_metadata (extract_video_id demo_reference)"
    by (simp add: scraping_succeeds_def env_no_metadata_def env_scraping_fails_def demo_env_def)
  have b: "\<not> structured_api_succeeds env_no_metadata (extract_video_id demo_reference)"
    by (simp add: structured_api_succeeds_def env_no_metadata_def env_scraping_fails_def demo_env_def)
  have c: "fst (read_reference env_no_metadata w_init) = Inr demo_reference"
    by (simp add: read_reference_def env_no_metadata_def env_scraping_fails_def demo_env_def)
  have d: "transcript_api env_no_metadata (extract_video_id demo_reference) [ascii ''en'', ascii ''ko'']
       = Inr demo_entries"
    by (simp add: demo_reference_id) (simp add: env_no_metadata_def env_scraping_fails_def demo_env_def)
  have e: "demo_entries \<noteq> []"
    by (simp add: demo_entries_def)
  have f: "on_calendar (now env_no_metadata)"
    by (simp add: on_calendar_def env_no_metadata_def env_scraping_fails_def demo_env_def)
  have g: "open_w env_no_metadata
       (ascii ''output/'' @ report_name (now env_no_metadata) (extract_video_id demo_reference))
       = None"
    by (simp add: env_no_metadata_def env_scraping_fails_def demo_env_def)
  have flag: "translate_flag env_no_metadata"
    by (simp add: translate_flag_def env_no_metadata_def env_scraping_fails_def demo_env_def)
  have name: "ascii ''output/'' @ report_name (now env_no_metadata) demo_id
      = ascii ''output/20250309_070500_dQw4w9WgXcQ.md''"
    by (simp add: report_name_def env_no_metadata_def env_scraping_fails_def demo_env_def demo_stamp)
       (simp add: demo_id_def ascii_def)
  from default_metadata_wholesale [OF a b c demo_reference_nonempty d e f g] a b c d e f g
    demo_reference_nonempty
  show ?thesis
    by (simp add: demo_reference_id flag name)
qed



text \<open>
  Claim C7, as amended.  The closing condition of the pattern accepts \<^verbatim>\<open>?\<close>, \<^verbatim>\<open>&\<close>,
  \<^verbatim>\<open>/\<close>, the end of the string, and also a single newline that ends the string.
  An input without an occurrence of that pattern is returned unchanged; for an input
  with one, the result is the 11-character token of the leftmost occurrence.
\<close>
theorem resolver_leftmost_occurrence:
  "(\<not> pattern_matches closing_amended s \<longrightarrow> extract_video_id s = s) \<and>
   (pattern_matches closing_amended s \<longrightarrow>
      (\<exists>i<length s. \<exists>n\<in>{1, 2}. occurs_at closing_amended s i n
         \<and> extract_video_id s = token s (i + n)
         \<and> (\<forall>j<i. \<forall>m\<in>{1, 2}. \<not> occurs_at closing_amended s j m)))"
proof (cases "re_search s")
  case None
  then have "\<not> pattern_matches closing_amended s"
    by (simp add: re_search_None pattern_matches_def)
  with None show ?thesis
    by (simp add: extract_video_id_def)
next
  case (Some g)
  from re_search_Some [OF this] Some show ?thesis
    by (auto simp: extract_video_id_def pattern_matches_def)
qed

text \<open>
  As stated, C7 fails: a reference that ends in a newline has no occurrence of the
  pattern whose closing condition stops at the end of the string, and it is not returned
  unchanged.
\<close>

theorem resolver_newline_counterexample:
  "\<not> pattern_matches closing_per_spec newline_reference
   \<and> extract_video_id newline_reference \<noteq> newline_reference"
proof
  show "\<not> pattern_matches closing_per_spec newline_reference"
    by (simp add: pattern_matches_def newline_reference_def ascii_def All_less_Suc occurs_at_def
        opener_at_def token_def closing_per_spec_def)
  show "extract_video_id newline_reference \<noteq> newline_reference"
    by (simp add: newline_reference_def extract_video_id_def match_here_def match_id_def
        closing_group_def at_dollar_def id_char_def ascii_def)
qed

theorem resolver_leftmost_occurrence_witness:
  "\<not> pattern_matches closing_amended demo_id \<and> extract_video_id demo_id = demo_id
   \<and> pattern_matches closing_amended newline_reference
   \<and> extract_video_id newline_reference = token newline_reference 1
   \<and> token newline_reference 1 = ascii ''abcdefghijk''"
proof -
  have no: "\<not> pattern_matches closing_amended demo_id"
    by (simp add: pattern_matches_def demo_id_def ascii_def All_less_Suc occurs_at_def
        opener_at_def token_def)
  have at0: "occurs_at closing_amended newline_reference 0 1"
    by (simp add: newline_reference_def ascii_def occurs_at_def opener_at_def token_def
        closing_amended_def id_char_def)
  then have yes: "pattern_matches closing_amended newline_reference"
    unfolding pattern_matches_def
    by (intro exI [of _ 0] conjI bexI [of _ 1]) (simp_all add: newline_reference_def ascii_def)
  have not2: "\<not> occurs_at closing_amended newline_reference 0 2"
    by (simp add: newline_reference_def ascii_def occurs_at_def opener_at_def)
  from resolver_leftmost_occurrence [of newline_reference] yes
  obtain i n where "n \<in> {1, 2}" "occurs_at closing_amended newline_reference i n"
    "extract_video_id newline_reference = token newline_reference (i + n)"
    "\<forall>j<i. \<forall>m\<in>{1, 2}. \<not> occurs_at closing_amended newline_reference j m"
    by blast
  with at0 not2 have "extract_video_id newline_reference = token newline_reference 1"
    by (cases "i = 0") auto
  moreover have "token newline_reference 1 = ascii ''abcdefghijk''"
    by (simp add: newline_reference_def token_def ascii_def)
  ultimately show ?thesis
    using no yes resolver_leftmost_occurrence [of demo_id] by simp
qed

text \<open>
  Claim C8.  For a number of seconds that is not negative, the formatter gives the
  zero-padded \<^verbatim>\<open>HH:MM:SS\<close> of the seconds truncated to a whole number, so the
  fractional part never matters; 0 gives \<^verbatim>\<open>00:00:00\<close>, 3661 gives \<^verbatim>\<open>01:01:01\<close> and 59.9
  gives \<^verbatim>\<open>00:00:59\<close>.
\<close>
theorem format_timestamp_truncates:
  "0 \<le> x \<Longrightarrow>
     format_timestamp x = clock_of_seconds (nat \<lfloor>x\<rfloor>)
   \<and> format_timestamp x = format_timestamp (of_int \<lfloor>x\<rfloor>)
   \<and> format_timestamp 0 = ascii ''00:00:00''
   \<and> format_timestamp 3661 = ascii ''01:01:01''
   \<and> format_timestamp (599 / 10) = ascii ''00:00:59''"
proof (intro conjI)
  assume "0 \<le> x"
  then show "format_timestamp x = clock_of_seconds (nat \<lfloor>x\<rfloor>)"
    by (rule format_timestamp_clock)
  show "format_timestamp x = format_timestamp (of_int \<lfloor>x\<rfloor>)"
    by (simp add: format_timestamp_floor)
  show "format_timestamp 0 = ascii ''00:00:00''"
    by (simp add: format_timestamp_floor fmt_02d_def zfill_def digits.simps ascii_def)
  show "format_timestamp 3661 = ascii ''01:01:01''"
    by (simp add: format_timestamp_floor fmt_02d_def zfill_def digits.simps ascii_def)
  show "format_timestamp (599 / 10) = ascii ''00:00:59''"
    by (simp add: format_timestamp_floor fmt_02d_def zfill_def digits.simps ascii_def)
qed

theorem format_timestamp_truncates_witness:
  "(0::real) \<le> 3599999 / 1000
   \<and> format_timestamp (3599999 / 1000) = clock_of_seconds 3599
   \<and> format_timestamp (3599999 / 1000) = ascii ''00:59:59''"
proof -
  have h: "(0::real) \<le> 3599999 / 1000" by simp
  have fl: "nat \<lfloor>3599999 / 1000 :: real\<rfloor> = 3599" by simp
  have "clock_of_seconds 3599 = ascii ''00:59:59''"
    by (simp add: clock_of_seconds_def zfill_def digits.simps ascii_def)
  with format_timestamp_truncates [OF h] h fl show ?thesis
    by simp
qed

text \<open>
  Claim C9.  Whenever the fallback chain returns a record, from either provider, its
  url is the watch URL built from the identifier.
\<close>
theorem metadata_url_is_canonical:
  "fst (get_video_metadata env video_id w) = Some m \<Longrightarrow>
     url m = ascii ''https://www.youtube.com/watch?v='' @ video_id"
  by (auto simp: get_video_metadata_def watch_url_def Let_def
      split: sum.splits option.splits list.splits prod.splits if_splits)

theorem metadata_url_is_canonical_witness:
  "fst (get_video_metadata demo_env demo_id w_init)
     = Some \<lparr>title = ascii ''A: B/C?'', channel = ascii ''Some channel'', url = watch_url demo_id\<rparr>
   \<and> url \<lparr>title = ascii ''A: B/C?'', channel = ascii ''Some channel'', url = watch_url demo_id\<rparr>
       = ascii ''https://www.youtube.com/watch?v='' @ demo_id
   \<and> fst (get_video_metadata env_scraping_fails demo_id w_init)
     = Some \<lparr>title = ascii ''Api title'', channel = ascii ''Api channel'', url = watch_url demo_id\<rparr>
   \<and> url \<lparr>title = ascii ''Api title'', channel = ascii ''Api channel'', url = watch_url demo_id\<rparr>
       = ascii ''https://www.youtube.com/watch?v='' @ demo_id"
proof -
  have a: "fst (get_video_metadata demo_env demo_id w_init)
     = Some \<lparr>title = ascii ''A: B/C?'', channel = ascii ''Some channel'', url = watch_url demo_id\<rparr>"
    by (simp add: get_video_metadata_def demo_env_def Let_def ascii_def)
  have b: "fst (get_video_metadata env_scraping_fails demo_id w_init)
     = Some \<lparr>title = ascii ''Api title'', channel = ascii ''Api channel'', url = watch_url demo_id\<rparr>"
    by (simp add: get_video_metadata_def env_scraping_fails_def demo_env_def Let_def ascii_def)
  from a b metadata_url_is_canonical [OF a] metadata_url_is_canonical [OF b] show ?thesis
    by simp
qed

text \<open>
  Claim C10.  With translation requested, both lines of an entry whose start offset is
  not negative begin with the same link \<^verbatim>\<open>[HH:MM:SS](watch-url&t=<seconds>s)\<close>, whose
  clock label and whose seconds are both taken from the start offset truncated to a
  whole number; this holds for a genuine translation and for the placeholder alike.
\<close>
theorem both_lines_share_link:
  assumes j: "j < length es" and nonneg: "0 \<le> entry_start (es ! j)"
  shows "transcript_lines env video_id True es ! (2 * j)
        = deep_link video_id (nat \<lfloor>entry_start (es ! j)\<rfloor>) @ ascii '' '' @ entry_text (es ! j)
    \<and> transcript_lines env video_id True es ! (2 * j + 1)
        = deep_link video_id (nat \<lfloor>entry_start (es ! j)\<rfloor>) @ ascii '' '' @ translation_tag
            @ ascii '' '' @ second_text env j (es ! j)"
  using transcript_loop_nth [OF j, of env "watch_url video_id" 0]
    timestamp_link_deep [OF nonneg, of video_id]
  by (simp add: transcript_lines_def original_line_def translated_line_def)

theorem both_lines_share_link_witness:
  "1 < length demo_entries \<and> 0 \<le> entry_start (demo_entries ! 1)
   \<and> transcript_lines demo_env demo_id True demo_entries ! 2
        = deep_link demo_id 3725 @ ascii '' bye''
   \<and> transcript_lines demo_env demo_id True demo_entries ! 3
        = deep_link demo_id 3725 @ ascii '' '' @ translation_tag @ ascii '' '' @ error_placeholder
   \<and> deep_link demo_id 3725
        = ascii ''[01:02:05](https://www.youtube.com/watch?v=dQw4w9WgXcQ&t=3725s)''"
proof -
  have b: "1 < length demo_entries"
    by (simp add: demo_entries_def)
  have c: "0 \<le> entry_start (demo_entries ! 1)"
    by (simp add: demo_entries_def)
  have fl: "nat \<lfloor>entry_start (demo_entries ! Suc 0)\<rfloor> = 3725"
    "entry_text (demo_entries ! Suc 0) = ascii ''bye''"
    by (simp_all add: demo_entries_def)
  have sec: "second_text demo_env (Suc 0) (demo_entries ! Suc 0) = error_placeholder"
    by (simp add: second_text_def demo_env_def)
  have link: "deep_link demo_id 3725
        = ascii ''[01:02:05](https://www.youtube.com/watch?v=dQw4w9WgXcQ&t=3725s)''"
    by (simp add: deep_link_def clock_of_seconds_def zfill_def digits.simps watch_url_def
        demo_id_def ascii_def)
  from both_lines_share_link [OF b c, of demo_env demo_id] b c link show ?thesis
    by (simp add: fl sec) (simp add: ascii_def)
qed

end
